theory Spec2Isabelle
  imports Main "HOL-Library.Word"
begin

unbundle bit_operations_syntax

section \<open>Values, requests and responses\<close>

text \<open>
  The program is an Express application of two files: \<^verbatim>\<open>payment.js\<close> (a router with one
  route) and \<^verbatim>\<open>app.js\<close> (the application: a JSON body parser, the User router, the
  payment router, the root route, and the listener on port 3000).

  Strings are byte strings: a request path is the ASCII text of \<^verbatim>\<open>req.path\<close>, and every
  other text is its UTF-8 encoding, which is what goes over the wire.
\<close>

text \<open>
  What \<^verbatim>\<open>req.params\<close> and \<^verbatim>\<open>req.query\<close> hold. A path parameter is a string. A query
  parameter is a string, an array (a key given several times) or an object (a key written
  \<^verbatim>\<open>filter[a]=b\<close>); a property that is absent reads as \<^verbatim>\<open>undefined\<close>.
\<close>

datatype jsvalue =
    Undefined
  | Str string
  | Arr "jsvalue list"
  | Obj "(string \<times> jsvalue) list"

type_synonym object = "string \<rightharpoonup> jsvalue"

definition getProp :: "object \<Rightarrow> string \<Rightarrow> jsvalue" where
  \<comment> \<open>Reading \<^verbatim>\<open>o.k\<close>: the property, or \<^verbatim>\<open>undefined\<close> when the object has none of that name.\<close>
  "getProp ob k = (case ob k of None \<Rightarrow> Undefined | Some v \<Rightarrow> v)"

fun joinWith :: "string \<Rightarrow> string list \<Rightarrow> string" where
  "joinWith sep [] = []"
| "joinWith sep [s] = s"
| "joinWith sep (s # t # ss) = s @ sep @ joinWith sep (t # ss)"

text \<open>
  What a template literal \<^verbatim>\<open>${v}\<close> renders: ECMAScript's ToString, with \<^verbatim>\<open>None\<close> for the
  TypeError it can throw. An array joins the renderings of its elements with commas, an
  undefined element giving the empty text. An object of the query string is a plain object
  whose own properties are strings, arrays and objects, none of them callable: it renders
  through \<^verbatim>\<open>Object.prototype.toString\<close> as \<^verbatim>\<open>[object Object]\<close>, unless it has an own property
  \<^verbatim>\<open>toString\<close> (as \<^verbatim>\<open>filter[toString]=x\<close> gives it), which hides that method; then neither
  \<^verbatim>\<open>toString\<close> nor \<^verbatim>\<open>valueOf\<close> yields a primitive and the conversion throws.
\<close>

fun toString :: "jsvalue \<Rightarrow> string option"
  and toStrings :: "jsvalue list \<Rightarrow> string list option" where
  "toString Undefined = Some ''undefined''"
| "toString (Str s) = Some s"
| "toString (Arr vs) = map_option (joinWith '','') (toStrings vs)"
| "toString (Obj ps) =
     (if ''toString'' \<in> set (map fst ps) then None else Some ''[object Object]'')"
| "toStrings [] = Some []"
| "toStrings (v # vs) =
     (case (if v = Undefined then Some [] else toString v) of
        None \<Rightarrow> None
      | Some s \<Rightarrow> map_option ((#) s) (toStrings vs))"

text \<open>
  A JSON value, as \<^verbatim>\<open>express.json()\<close> stores it in \<^verbatim>\<open>req.body\<close>. A number is kept as its
  text: no handler reads it.
\<close>

datatype json =
    JNull
  | JBool bool
  | JNumber string
  | JString string
  | JArray "json list"
  | JObject "(string \<times> json) list"

text \<open>
  The body of a request as the JSON body parser classifies it, from the Content-Type,
  Content-Length, Transfer-Encoding and Content-Encoding headers and the bytes that follow:
  nothing for it to parse (no body, or a media type other than \<^verbatim>\<open>application/json\<close>), a
  JSON text with its value, or a body it refuses, with the status of the error it raises
  (400 for a malformed text, 413 for a body over the limit, 415 for a charset or encoding
  it does not support).
\<close>

datatype entity = NoJson | Parsed json | Refused nat

text \<open>
  The methods of the model. OPTIONS is left out: Express answers it itself, with the list
  of methods the matching routes allow.
\<close>

datatype http_method = GET | HEAD | POST | PUT | PATCH | DELETE

text \<open>
  A request as the stack of app.js receives it: \<^verbatim>\<open>method'\<close> is \<^verbatim>\<open>req.method\<close>; \<^verbatim>\<open>path\<close> is
  \<^verbatim>\<open>req.path\<close>, the part of the URL before the question mark, as it was sent; \<^verbatim>\<open>query\<close> is
  \<^verbatim>\<open>req.query\<close>, the parsed query string; \<^verbatim>\<open>params\<close> and \<^verbatim>\<open>body\<close> are \<^verbatim>\<open>req.params\<close> and
  \<^verbatim>\<open>req.body\<close>, which a route and the body parser fill in (\<^verbatim>\<open>None\<close> for a body stands for
  no parsed data). \<^verbatim>\<open>headers\<close> are the header fields as they were sent, a name as often as it
  was sent. What the body parser makes of the headers and the body is in \<^verbatim>\<open>entity\<close>.
  \<^verbatim>\<open>revalidated\<close> is what the cache validators of the request come to in the one case that
  the headers and the body do not settle (see \<open>fresh\<close> below).
\<close>

record request =
  method' :: http_method
  path :: string
  params :: object
  query :: object
  headers :: "(string \<times> string) list"
  entity :: entity
  body :: "json option"
  revalidated :: bool

text \<open>
  A response as \<^verbatim>\<open>res.send\<close> writes it: the status code, the Content-Type header (\<^verbatim>\<open>None\<close>
  when the response has none) and the body.
\<close>

record response =
  status :: nat
  contentType :: "string option"
  content :: string

text \<open>
  The state of the process that a handler could read or write: the port the listener is
  bound to and the lines written to standard output.
\<close>

record server =
  port :: "nat option"
  console :: "string list"

text \<open>
  What a middleware does with a request: it sends a response, it calls \<^verbatim>\<open>next()\<close> and so
  passes the request (as it left it) to the next middleware, or it calls \<^verbatim>\<open>next(err)\<close>
  with an error of some status.
\<close>

datatype outcome = Respond response | Next request | Fail nat

type_synonym middleware = "request \<Rightarrow> server \<Rightarrow> outcome \<times> server"

section \<open>Sending a response\<close>

definition lower :: "char \<Rightarrow> char" where
  "lower c =
     (case map_of (zip ''ABCDEFGHIJKLMNOPQRSTUVWXYZ'' ''abcdefghijklmnopqrstuvwxyz'') c of
        None \<Rightarrow> c
      | Some l \<Rightarrow> l)"

text \<open>
  The entries of \<^verbatim>\<open>req.headers\<close> that the freshness check reads. Node puts the names in lower
  case; of a field sent several times it joins the values of If-None-Match with a comma
  and a space and keeps the first value of If-Modified-Since. An empty value counts as no
  value (it is falsy).
\<close>

definition fieldValues :: "request \<Rightarrow> string \<Rightarrow> string list" where
  "fieldValues req name = map snd (filter (\<lambda>field. map lower (fst field) = name) (headers req))"

definition noneMatch :: "request \<Rightarrow> string option" where
  "noneMatch req =
     (case fieldValues req ''if-none-match'' of
        [] \<Rightarrow> None
      | v # vs \<Rightarrow> if joinWith '', '' (v # vs) = [] then None else Some (joinWith '', '' (v # vs)))"

definition modifiedSince :: "request \<Rightarrow> string option" where
  "modifiedSince req =
     (case fieldValues req ''if-modified-since'' of
        [] \<Rightarrow> None
      | v # vs \<Rightarrow> if v = [] then None else Some v)"

text \<open>
  Whether the request asks for an end-to-end reload: one of the comma-separated items of
  its Cache-Control header is \<^verbatim>\<open>no-cache\<close>, blanks around it aside.
\<close>

definition blank :: "char \<Rightarrow> bool" where
  "blank c = ((of_char c :: nat) \<in> {9, 10, 11, 12, 13, 32, 160})"

definition trim :: "string \<Rightarrow> string" where
  "trim s = rev (dropWhile blank (rev (dropWhile blank s)))"

fun items :: "string \<Rightarrow> string list" where
  \<comment> \<open>The pieces of a text between its commas.\<close>
  "items [] = [[]]"
| "items (c # cs) =
     (if c = CHR '','' then [] # items cs
      else (case items cs of [] \<Rightarrow> [[c]] | s # ss \<Rightarrow> (c # s) # ss))"

definition noCache :: "request \<Rightarrow> bool" where
  "noCache req =
     (case fieldValues req ''cache-control'' of
        [] \<Rightarrow> False
      | v # vs \<Rightarrow> list_ex (\<lambda>item. trim item = ''no-cache'') (items (joinWith '', '' (v # vs))))"

text \<open>
  The ETag that \<^verbatim>\<open>res.send\<close> gives a body, with the setting Express starts with: a weak tag
  made of the length of the body in hexadecimal and the first 27 characters of the Base64
  of its SHA-1 digest (FIPS 180-4).
\<close>

type_synonym word32 = "32 word"

definition bigEndian :: "nat \<Rightarrow> nat \<Rightarrow> nat list" where
  \<comment> \<open>The number in that many octets, the highest first.\<close>
  "bigEndian n v = map (\<lambda>i. (v div 256 ^ (n - Suc i)) mod 256) [0..<n]"

definition padded :: "nat list \<Rightarrow> nat list" where
  "padded bs =
     bs @ [128] @ replicate ((119 - length bs mod 64) mod 64) 0 @ bigEndian 8 (8 * length bs)"

fun chunks :: "nat \<Rightarrow> nat \<Rightarrow> 'a list \<Rightarrow> 'a list list" where
  \<comment> \<open>The first so many pieces of a given length.\<close>
  "chunks 0 len xs = []"
| "chunks (Suc n) len xs = take len xs # chunks n len (drop len xs)"

definition wordOf :: "nat list \<Rightarrow> word32" where
  "wordOf bs = of_nat (foldl (\<lambda>v b. 256 * v + b) 0 bs)"

fun extend :: "nat \<Rightarrow> word32 list \<Rightarrow> word32 list" where
  "extend 0 ws = ws"
| "extend (Suc n) ws =
     extend n (ws @ [word_rotl 1 (ws ! (length ws - 3) XOR ws ! (length ws - 8)
                                   XOR ws ! (length ws - 14) XOR ws ! (length ws - 16))])"

definition mix :: "nat \<Rightarrow> word32 \<Rightarrow> word32 \<Rightarrow> word32 \<Rightarrow> word32" where
  "mix t b c d =
     (if t < 20 then (b AND c) OR (NOT b AND d)
      else if t < 40 then b XOR c XOR d
      else if t < 60 then (b AND c) OR (b AND d) OR (c AND d)
      else b XOR c XOR d)"

definition roundConstant :: "nat \<Rightarrow> word32" where
  "roundConstant t =
     (if t < 20 then 0x5A827999
      else if t < 40 then 0x6ED9EBA1
      else if t < 60 then 0x8F1BBCDC
      else 0xCA62C1D6)"

type_synonym sha1state = "word32 \<times> word32 \<times> word32 \<times> word32 \<times> word32"

definition sha1round :: "word32 list \<Rightarrow> sha1state \<Rightarrow> nat \<Rightarrow> sha1state" where
  "sha1round ws st t =
     (case st of (a, b, c, d, e) \<Rightarrow>
        (word_rotl 5 a + mix t b c d + e + roundConstant t + ws ! t, a, word_rotl 30 b, c, d))"

definition sha1block :: "sha1state \<Rightarrow> nat list \<Rightarrow> sha1state" where
  "sha1block st block =
     (case (st, foldl (sha1round (extend 64 (map wordOf (chunks 16 4 block)))) st [0..<80]) of
        ((a, b, c, d, e), (a', b', c', d', e')) \<Rightarrow> (a + a', b + b', c + c', d + d', e + e'))"

definition sha1 :: "nat list \<Rightarrow> nat list" where
  "sha1 bs =
     (case foldl sha1block (0x67452301, 0xEFCDAB89, 0x98BADCFE, 0x10325476, 0xC3D2E1F0)
             (chunks (length (padded bs) div 64) 64 (padded bs)) of
        (a, b, c, d, e) \<Rightarrow> concat (map (\<lambda>w. bigEndian 4 (unat w)) [a, b, c, d, e]))"

definition base64Digit :: "nat \<Rightarrow> char" where
  "base64Digit n =
     (''ABCDEFGHIJKLMNOPQRSTUVWXYZabcdefghijklmnopqrstuvwxyz0123456789+/'') ! n"

fun base64 :: "nat list \<Rightarrow> string" where
  "base64 (a # b # c # bs) =
     [base64Digit (a div 4), base64Digit ((a mod 4) * 16 + b div 16),
      base64Digit ((b mod 16) * 4 + c div 64), base64Digit (c mod 64)] @ base64 bs"
| "base64 [a, b] =
     [base64Digit (a div 4), base64Digit ((a mod 4) * 16 + b div 16),
      base64Digit ((b mod 16) * 4), CHR ''='']"
| "base64 [a] = [base64Digit (a div 4), base64Digit ((a mod 4) * 16), CHR ''='', CHR ''='']"
| "base64 [] = []"

fun hexDigits :: "nat \<Rightarrow> nat \<Rightarrow> string" where
  \<comment> \<open>The number in hexadecimal, in at most so many digits more than one.\<close>
  "hexDigits 0 n = [(''0123456789abcdef'') ! (n mod 16)]"
| "hexDigits (Suc k) n =
     (if n < 16 then [(''0123456789abcdef'') ! n]
      else hexDigits k (n div 16) @ [(''0123456789abcdef'') ! (n mod 16)])"

definition etag :: "string \<Rightarrow> string" where
  "etag s =
     ''W/'' @ [CHR 0x22] @ hexDigits (length s) (length s) @ ''-''
       @ take 27 (base64 (sha1 (map of_char s))) @ [CHR 0x22]"

text \<open>
  Whether an If-None-Match header names a tag: one of its comma-separated items, spaces
  around it aside, is the tag, with or without the mark of a weak one.
\<close>

definition trimSpaces :: "string \<Rightarrow> string" where
  "trimSpaces s = rev (dropWhile (\<lambda>c. c = CHR '' '') (rev (dropWhile (\<lambda>c. c = CHR '' '') s)))"

definition names :: "string \<Rightarrow> string \<Rightarrow> bool" where
  "names v tag =
     list_ex (\<lambda>item. item = tag \<or> item = ''W/'' @ tag \<or> ''W/'' @ item = tag)
       (map trimSpaces (items v))"

text \<open>
  \<^verbatim>\<open>req.fresh\<close>, as \<^verbatim>\<open>res.send\<close> reads it once the body and its ETag are set: whether the
  response is still fresh in the cache of the client. Only a GET or a HEAD can be. A request
  without If-None-Match is not: with no If-Modified-Since either it is unconditional, and
  with one the validator fails, since the response has no Last-Modified header. A reload
  is not. Otherwise the request is fresh when its If-None-Match is \<^verbatim>\<open>*\<close> or names the ETag
  of the body, and stale when it does not. One case is left to the request, in
  \<^verbatim>\<open>revalidated\<close>: an If-None-Match that holds beside an If-Modified-Since, where the check
  that comes with Express 4 goes on to fail on the date and the one that comes with
  Express 5 does not look at it.
\<close>

definition fresh :: "request \<Rightarrow> string \<Rightarrow> bool" where
  "fresh req s =
     (if method' req \<noteq> GET \<and> method' req \<noteq> HEAD then False
      else
        (case noneMatch req of
           None \<Rightarrow> False
         | Some v \<Rightarrow>
             if noCache req then False
             else if v = ''*'' \<or> names v (etag s)
             then (if modifiedSince req = None then True else revalidated req)
             else False))"

definition unconditional :: "request \<Rightarrow> bool" where
  \<comment> \<open>The request has no If-None-Match and no If-Modified-Since header.\<close>
  "unconditional req =
     (fieldValues req ''if-none-match'' = [] \<and> fieldValues req ''if-modified-since'' = [])"

definition send :: "request \<Rightarrow> string \<Rightarrow> outcome" where
  \<comment> \<open>The call \<^verbatim>\<open>res.send(s)\<close> for a string, on the response to that request, whose status and
      type nobody has set. The status stays 200 and, the body being a string, the
      Content-Type becomes \<^verbatim>\<open>text/html\<close> with the charset \<^verbatim>\<open>utf-8\<close>; a HEAD gets no body. When
      the request is fresh, the status becomes 304, the Content-Type is removed and the
      body is empty.\<close>
  "send req s =
     Respond
       (if fresh req s then \<lparr>status = 304, contentType = None, content = []\<rparr>
        else \<lparr>status = 200, contentType = Some ''text/html; charset=utf-8'',
              content = (if method' req = HEAD then [] else s)\<rparr>)"

section \<open>Routing\<close>

text \<open>
  Express compiles the path of a route to a regular expression. For a path made of
  literal segments and named parameters, as both paths of this program are, the expression
  accepts a request path segment by segment: a literal segment whatever the case of its
  letters, a parameter \<^verbatim>\<open>:name\<close> as one or more characters other than the slash, and one
  slash more at the end (routing is neither case sensitive nor strict unless the
  application says so, and this one does not).
\<close>

fun segments :: "string \<Rightarrow> string list" where
  \<comment> \<open>The pieces of a text between its slashes.\<close>
  "segments [] = [[]]"
| "segments (c # cs) =
     (if c = CHR ''/'' then [] # segments cs
      else (case segments cs of [] \<Rightarrow> [[c]] | s # ss \<Rightarrow> (c # s) # ss))"

definition dropSlash :: "string \<Rightarrow> string" where
  "dropSlash p = (if p \<noteq> [] \<and> last p = CHR ''/'' then butlast p else p)"

definition pathSegments :: "string \<Rightarrow> string list option" where
  \<comment> \<open>The segments after the leading slash, one slash at the end left aside.\<close>
  "pathSegments p =
     (case segments (dropSlash p) of
        [] \<Rightarrow> None
      | s # ss \<Rightarrow> if s = [] then Some ss else None)"

datatype token = Literal string | Param string

definition token :: "string \<Rightarrow> token" where
  "token s =
     (case s of
        [] \<Rightarrow> Literal []
      | c # name \<Rightarrow> if c = CHR '':'' then Param name else Literal s)"

fun matchTokens :: "token list \<Rightarrow> string list \<Rightarrow> (string \<times> string) list option" where
  "matchTokens [] [] = Some []"
| "matchTokens (Literal l # ts) (s # ss) =
     (if map lower s = map lower l then matchTokens ts ss else None)"
| "matchTokens (Param n # ts) (s # ss) =
     (if s \<noteq> [] then map_option ((#) (n, s)) (matchTokens ts ss) else None)"
| "matchTokens _ _ = None"

definition matchPath :: "string \<Rightarrow> string \<Rightarrow> (string \<times> string) list option" where
  \<comment> \<open>The parameters a route path captures from a request path, as they stand in it.\<close>
  "matchPath pattern p =
     (case (pathSegments pattern, pathSegments p) of
        (Some ts, Some ss) \<Rightarrow> matchTokens (map token ts) ss
      | _ \<Rightarrow> None)"

text \<open>
  What a request path is made of. Express takes \<^verbatim>\<open>req.path\<close> from the URL up to the first
  question mark, and a number sign never gets that far either. The characters of a path
  segment are those of RFC 3986 (\<^verbatim>\<open>pchar\<close>): letters, digits, the marks below, the apostrophe
  (character 39) and the percent sign of an escape. The segments \<^verbatim>\<open>.\<close> and \<^verbatim>\<open>..\<close>, written
  out or escaped, stand for no name: a client resolves them away before it sends the URL.
\<close>

definition pathChar :: "char \<Rightarrow> bool" where
  "pathChar c =
     (48 \<le> (of_char c :: nat) \<and> (of_char c :: nat) \<le> 57
      \<or> 65 \<le> (of_char c :: nat) \<and> (of_char c :: nat) \<le> 90
      \<or> 97 \<le> (of_char c :: nat) \<and> (of_char c :: nat) \<le> 122
      \<or> c \<in> set ''-._~!$&()*+,;=:@%''
      \<or> (of_char c :: nat) = 39)"

definition pathname :: "string \<Rightarrow> bool" where
  "pathname p = list_all (\<lambda>c. pathChar c \<or> c = CHR ''/'') p"

definition pathSegment :: "string \<Rightarrow> bool" where
  "pathSegment s = (s \<noteq> [] \<and> list_all pathChar s)"

definition dotSegment :: "string \<Rightarrow> bool" where
  "dotSegment s = (s = ''.'' \<or> s = ''..'')"

text \<open>
  Express decodes each captured parameter with \<^verbatim>\<open>decodeURIComponent\<close> (ECMAScript, Decode
  with an empty reserved set): a character other than the percent sign stands for itself,
  an escape \<^verbatim>\<open>%XX\<close> below 128 for that character, and an escape from 128 on starts a
  UTF-8 sequence of two to four escapes, which must be well formed. Anything else is a
  URIError. The result is given by its UTF-8 bytes, which are the escaped octets.
\<close>

definition hexDigit :: "char \<Rightarrow> nat option" where
  "hexDigit c =
     map_of (zip ''0123456789abcdefABCDEF''
               [0, 1, 2, 3, 4, 5, 6, 7, 8, 9, 10, 11, 12, 13, 14, 15, 10, 11, 12, 13, 14, 15]) c"

fun hexOctet :: "string \<Rightarrow> nat option" where
  \<comment> \<open>The octet of an escape at the head of the text.\<close>
  "hexOctet (p # h # l # cs) =
     (if p = CHR ''%'' then
        (case (hexDigit h, hexDigit l) of
           (Some a, Some b) \<Rightarrow> Some (16 * a + b)
         | _ \<Rightarrow> None)
      else None)"
| "hexOctet _ = None"

fun octets :: "nat \<Rightarrow> string \<Rightarrow> nat list option" where
  \<comment> \<open>The octets of that many escapes in a row at the head of the text.\<close>
  "octets 0 cs = Some []"
| "octets (Suc n) cs =
     (case hexOctet cs of
        None \<Rightarrow> None
      | Some b \<Rightarrow> map_option ((#) b) (octets n (drop 3 cs)))"

definition sequenceLength :: "nat \<Rightarrow> nat" where
  \<comment> \<open>How many octets the sequence that starts with this octet has: its leading one bits,
      or one octet when there are none. 0 stands for an octet that starts no sequence.\<close>
  "sequenceLength b =
     (if b < 128 then 1
      else if b < 192 then 0
      else if b < 224 then 2
      else if b < 240 then 3
      else if b < 248 then 4
      else 0)"

definition continuation :: "nat \<Rightarrow> bool" where
  "continuation b = (128 \<le> b \<and> b < 192)"

fun wellFormed :: "nat list \<Rightarrow> bool" where
  \<comment> \<open>The well-formed UTF-8 sequences of one code point (Unicode, table 3-7).\<close>
  "wellFormed [a] = (a < 128)"
| "wellFormed [a, b] = (194 \<le> a \<and> a < 224 \<and> continuation b)"
| "wellFormed [a, b, c] =
     (continuation c \<and>
      (if a = 224 then 160 \<le> b \<and> b < 192
       else if a = 237 then 128 \<le> b \<and> b < 160
       else 224 < a \<and> a < 240 \<and> continuation b))"
| "wellFormed [a, b, c, d] =
     (continuation c \<and> continuation d \<and>
      (if a = 240 then 144 \<le> b \<and> b < 192
       else if a = 244 then 128 \<le> b \<and> b < 144
       else 240 < a \<and> a < 244 \<and> continuation b))"
| "wellFormed _ = False"

fun decodeURIComponent :: "string \<Rightarrow> string option" where
  "decodeURIComponent [] = Some []"
| "decodeURIComponent (c # cs) =
     (if c \<noteq> CHR ''%'' then map_option ((#) c) (decodeURIComponent cs)
      else
        (case hexOctet (c # cs) of
           None \<Rightarrow> None
         | Some b \<Rightarrow>
             (case octets (sequenceLength b) (c # cs) of
                None \<Rightarrow> None
              | Some bs \<Rightarrow>
                  if wellFormed bs
                  then map_option ((@) (map char_of bs))
                         (decodeURIComponent (drop (3 * sequenceLength b - 1) cs))
                  else None)))"

fun decodeParams :: "(string \<times> string) list \<Rightarrow> (string \<times> jsvalue) list option" where
  "decodeParams [] = Some []"
| "decodeParams ((n, s) # ps) =
     (case decodeURIComponent s of
        None \<Rightarrow> None
      | Some v \<Rightarrow> map_option ((#) (n, Str v)) (decodeParams ps))"

definition get :: "string \<Rightarrow> middleware \<Rightarrow> middleware" where
  \<comment> \<open>A route \<^verbatim>\<open>get(path, handler)\<close> of a router or of the application. The router matches
      the path and decodes the parameters first: one that does not decode is an error of
      status 400, whatever the method. The handler then runs for GET, and for HEAD as
      no route is registered for it, with the parameters in \<^verbatim>\<open>req.params\<close>.\<close>
  "get pattern handler req sv =
     (case matchPath pattern (path req) of
        None \<Rightarrow> (Next req, sv)
      | Some captured \<Rightarrow>
          (case decodeParams captured of
             None \<Rightarrow> (Fail 400, sv)
           | Some ps \<Rightarrow>
               if method' req = GET \<or> method' req = HEAD
               then handler (req\<lparr>params := map_of ps\<rparr>) sv
               else (Next req, sv)))"

section \<open>payment.js\<close>

definition paymentHandler :: middleware where
  \<comment> \<open>The handler of \<^verbatim>\<open>router.get('/users/:id/payment', ...)\<close>, payment.js lines 4 to 12. The
      template literal of line 11 renders the two values in turn; when one throws, Express
      catches the exception and passes it to \<^verbatim>\<open>next\<close>: an error without a status, 500.\<close>
  "paymentHandler req sv =
     (let userId = getProp (params req) ''id'';
          filter = getProp (query req) ''filter''
      in (case toString userId of
            None \<Rightarrow> (Fail 500, sv)
          | Some u \<Rightarrow>
              (case toString filter of
                 None \<Rightarrow> (Fail 500, sv)
               | Some f \<Rightarrow> (send req (''User ID: '' @ u @ '', Filter: '' @ f), sv))))"

definition paymentRoute :: middleware where
  \<comment> \<open>The router that payment.js exports: its one route.\<close>
  "paymentRoute = get ''/users/:id/payment'' paymentHandler"

section \<open>app.js\<close>

definition express_json :: middleware where
  \<comment> \<open>The middleware \<^verbatim>\<open>express.json()\<close> of line 4. It leaves a request with nothing to parse
      as it is, stores the value of a JSON body in \<^verbatim>\<open>req.body\<close>, and passes the error of
      a body it refuses to \<^verbatim>\<open>next\<close>.\<close>
  "express_json req sv =
     (case entity req of
        NoJson \<Rightarrow> (Next req, sv)
      | Parsed v \<Rightarrow> (Next (req\<lparr>body := Some v\<rparr>), sv)
      | Refused st \<Rightarrow> (Fail st, sv))"

definition rootHandler :: middleware where
  \<comment> \<open>The handler of \<^verbatim>\<open>app.get("/", ...)\<close>, app.js lines 11 to 13.\<close>
  "rootHandler req sv = (send req ''Hello World'', sv)"

definition rootRoute :: middleware where
  "rootRoute = get ''/'' rootHandler"

text \<open>
  How the application answers: a response that one of its middleware sent, or, from the
  handler Express ends every stack with, the default 404 page when every middleware passed
  the request on, and the default error page with the status of the error when one
  failed. An error goes past the routers and routes that follow, since none of them is an
  error handler, and app.js registers none.
\<close>

datatype reply = Sent response | NotFound | Failed nat

fun dispatch :: "middleware list \<Rightarrow> request \<Rightarrow> server \<Rightarrow> reply \<times> server" where
  "dispatch [] req sv = (NotFound, sv)"
| "dispatch (m # ms) req sv =
     (case m req sv of
        (Respond r, sv') \<Rightarrow> (Sent r, sv')
      | (Next req', sv') \<Rightarrow> dispatch ms req' sv'
      | (Fail st, sv') \<Rightarrow> (Failed st, sv'))"

definition app :: "middleware \<Rightarrow> request \<Rightarrow> server \<Rightarrow> reply \<times> server" where
  \<comment> \<open>The stack of app.js, in the order of its lines 4, 7, 10 and 11. The User router
      (\<^verbatim>\<open>require("./User")\<close>) is not among the files: it is a parameter, any middleware.\<close>
  "app userRoute = dispatch [express_json, userRoute, paymentRoute, rootRoute]"

definition listen :: "server \<Rightarrow> server" where
  \<comment> \<open>Lines 14 to 16: bind port 3000, then log the line.\<close>
  "listen sv = sv\<lparr>port := Some 3000, console := console sv @ [''Server is running..'']\<rparr>"

text \<open>
  Serving one request after another: the same request several times over, and a history of
  requests, each served in the state the one before left.
\<close>

fun repeated :: "middleware \<Rightarrow> nat \<Rightarrow> request \<Rightarrow> server \<Rightarrow> outcome list \<times> server" where
  "repeated m 0 req sv = ([], sv)"
| "repeated m (Suc n) req sv =
     (case m req sv of
        (out, sv') \<Rightarrow> (case repeated m n req sv' of (outs, sv'') \<Rightarrow> (out # outs, sv'')))"

fun after :: "(request \<Rightarrow> server \<Rightarrow> 'a \<times> server) \<Rightarrow> request list \<Rightarrow> server \<Rightarrow> server" where
  "after f [] sv = sv"
| "after f (req # reqs) sv = after f reqs (snd (f req sv))"

section \<open>Sample requests and collaborators\<close>

definition bare :: "http_method \<Rightarrow> string \<Rightarrow> request" where
  \<comment> \<open>A request of that method and path with no query string, no header and no body.\<close>
  "bare m p = \<lparr>method' = m, path = p, params = Map.empty, query = Map.empty, headers = [],
               entity = NoJson, body = None, revalidated = False\<rparr>"

definition started :: server where
  \<comment> \<open>The process once app.js has run.\<close>
  "started = listen \<lparr>port = None, console = []\<rparr>"

definition noRoutes :: middleware where
  \<comment> \<open>A User router that defines no route.\<close>
  "noRoutes req sv = (Next req, sv)"

definition loggingUser :: middleware where
  \<comment> \<open>A User router that defines no route and logs the path of every request.\<close>
  "loggingUser req sv = (Next req, sv\<lparr>console := console sv @ [path req]\<rparr>)"

lemmas eval_defs =
  paymentRoute_def rootRoute_def get_def matchPath_def pathSegments_def dropSlash_def token_def
  lower_def bare_def started_def listen_def noRoutes_def loggingUser_def app_def express_json_def
  paymentHandler_def rootHandler_def getProp_def send_def hexDigit_def sequenceLength_def
  continuation_def fresh_def noneMatch_def modifiedSince_def fieldValues_def unconditional_def
  noCache_def
  pathChar_def pathname_def pathSegment_def dotSegment_def

section \<open>Matching and decoding\<close>



lemma pathSegments_pattern:
  "pathSegments ''/users/:id/payment'' = Some [''users'', '':id'', ''payment'']"
  by (simp add: pathSegments_def dropSlash_def)



lemma matchTokens_payment_shape:
  assumes "matchTokens [Literal ''users'', Param ''id'', Literal ''payment''] ss = Some captured"
  shows "\<exists>seg. captured = [(''id'', seg)] \<and> seg \<noteq> []"
proof (cases ss)
  case Nil
  with assms show ?thesis by simp
next
  case (Cons a as)
  note A = this
  show ?thesis
  proof (cases as)
    case Nil
    with A assms show ?thesis by (simp split: if_splits)
  next
    case (Cons b bs)
    note B = this
    show ?thesis
    proof (cases bs)
      case Nil
      with A B assms show ?thesis by (simp split: if_splits)
    next
      case (Cons c cs)
      with A B assms show ?thesis by (cases cs) (auto split: if_splits)
    qed
  qed
qed

lemma matchPath_payment_shape:
  "matchPath ''/users/:id/payment'' p = Some captured \<Longrightarrow>
     \<exists>seg. captured = [(''id'', seg)] \<and> seg \<noteq> []"
  unfolding matchPath_def pathSegments_pattern
  by (auto simp: token_def split: option.splits dest: matchTokens_payment_shape)

lemma matchPath_root: "matchPath ''/'' ''/'' = Some []"
  by (simp add: matchPath_def pathSegments_def dropSlash_def)

lemma decode_plain: "CHR ''%'' \<notin> set s \<Longrightarrow> decodeURIComponent s = Some s"
  by (induction s) auto



section \<open>Freshness\<close>

lemma unconditional_not_fresh: "unconditional req \<Longrightarrow> \<not> fresh req s"
  by (simp add: unconditional_def fresh_def noneMatch_def)

lemma fields_params:
  "noneMatch (req\<lparr>params := ps\<rparr>) = noneMatch req"
  "modifiedSince (req\<lparr>params := ps\<rparr>) = modifiedSince req"
  "noCache (req\<lparr>params := ps\<rparr>) = noCache req"
  by (simp_all add: noneMatch_def modifiedSince_def noCache_def fieldValues_def)

lemma fresh_params: "fresh (req\<lparr>params := ps\<rparr>) s = fresh req s"
  by (cases "noneMatch req") (simp_all add: fresh_def fields_params)

lemma send_params: "send (req\<lparr>params := ps\<rparr>) s = send req s"
  by (simp add: send_def fresh_params)

lemma send_plain:
  assumes "unconditional req" and "method' req = GET"
  shows "send req s =
           Respond \<lparr>status = 200, contentType = Some ''text/html; charset=utf-8'', content = s\<rparr>"
  using assms by (simp add: send_def unconditional_not_fresh)

lemma send_cases:
  assumes "send req s = Respond r"
  shows "status r = 200 \<and> contentType r = Some ''text/html; charset=utf-8''
         \<or> status r = 304 \<and> contentType r = None \<and> content r = []"
  using assms by (auto simp: send_def split: if_splits)

section \<open>The routes\<close>

lemma paymentRoute_matched:
  assumes "matchPath ''/users/:id/payment'' (path req) = Some [(''id'', seg)]"
    and "decodeURIComponent seg = Some ident"
    and "method' req = GET \<or> method' req = HEAD"
  shows "paymentRoute req sv =
           (case toString (getProp (query req) ''filter'') of
              None \<Rightarrow> (Fail 500, sv)
            | Some f \<Rightarrow> (send req (''User ID: '' @ ident @ '', Filter: '' @ f), sv))"
  using assms
  by (auto simp: paymentRoute_def get_def paymentHandler_def getProp_def send_params
           split: option.splits)

lemma paymentRoute_undecoded:
  assumes "matchPath ''/users/:id/payment'' (path req) = Some [(''id'', seg)]"
    and "decodeURIComponent seg = None"
  shows "paymentRoute req sv = (Fail 400, sv)"
  using assms by (simp add: paymentRoute_def get_def)

lemma paymentRoute_unmatched:
  assumes "matchPath ''/users/:id/payment'' (path req) = None"
  shows "paymentRoute req sv = (Next req, sv)"
  using assms by (simp add: paymentRoute_def get_def)


lemma get_state:
  assumes "\<And>r s. snd (handler r s) = s"
  shows "snd (get pattern handler req sv) = sv"
  using assms by (simp add: get_def split: option.splits)

lemma get_outcome:
  assumes "\<And>r s s'. fst (handler r s) = fst (handler r s')"
  shows "fst (get pattern handler req sv) = fst (get pattern handler req sv')"
  using assms by (simp add: get_def split: option.splits)

lemma paymentHandler_state: "snd (paymentHandler req sv) = sv"
  by (simp add: paymentHandler_def split: option.splits)

lemma paymentHandler_outcome: "fst (paymentHandler req sv) = fst (paymentHandler req sv')"
  by (simp add: paymentHandler_def split: option.splits)

lemma paymentRoute_state: "snd (paymentRoute req sv) = sv"
  unfolding paymentRoute_def by (rule get_state) (rule paymentHandler_state)

lemma paymentRoute_outcome: "fst (paymentRoute req sv) = fst (paymentRoute req sv')"
  unfolding paymentRoute_def by (rule get_outcome) (rule paymentHandler_outcome)

lemma rootRoute_state: "snd (rootRoute req sv) = sv"
  unfolding rootRoute_def by (rule get_state) (simp add: rootHandler_def)

lemma rootRoute_outcome: "fst (rootRoute req sv) = fst (rootRoute req sv')"
  unfolding rootRoute_def by (rule get_outcome) (simp add: rootHandler_def)

lemma express_json_passes:
  assumes "express_json req sv = (Next req', sv')"
  shows "sv' = sv \<and> method' req' = method' req \<and> path req' = path req \<and> query req' = query req"
  using assms by (auto simp: express_json_def split: entity.splits)

lemma express_json_headers:
  assumes "express_json req sv = (Next req', sv')"
  shows "unconditional req' = unconditional req"
  using assms by (auto simp: express_json_def unconditional_def fieldValues_def split: entity.splits)

lemma repeated_pure:
  assumes "\<And>s. snd (m req s) = s" and "\<And>s s'. fst (m req s) = fst (m req s')"
  shows "repeated m n req sv = (replicate n (fst (m req sv)), sv)"
proof (induction n)
  case 0
  show ?case by simp
next
  case (Suc n)
  obtain out where step: "m req sv = (out, sv)"
    using assms(1)[of sv] by (cases "m req sv") simp
  with Suc show ?case by simp
qed

section \<open>The payment endpoint\<close>










text \<open>
  Claim C3, as amended. The handler of payment.js sets no header, so the type of what the
  payment endpoint sends is the one \<^verbatim>\<open>res.send\<close> gives a string: every response of status
  200 that the endpoint sends carries the header \<^verbatim>\<open>Content-Type: text/html; charset=utf-8\<close>,
  and the one other response it sends, the 304 to a request that is fresh, has no body and
  no Content-Type. None is \<^verbatim>\<open>text/plain\<close>.
\<close>

theorem payment_content_type:
  assumes "paymentRoute req sv = (Respond r, sv')"
  shows "status r = 200 \<and> contentType r = Some ''text/html; charset=utf-8''
         \<or> status r = 304 \<and> contentType r = None \<and> content r = []"
proof -
  from assms obtain req' s where "send req' s = Respond r"
    by (auto simp: paymentRoute_def get_def paymentHandler_def split: option.splits if_splits)
  then show ?thesis
    by (rule send_cases)
qed

text \<open>\<^verbatim>\<open>GET /users/42/payment\<close> with \<^verbatim>\<open>If-None-Match: *\<close>: a 304 without a type.\<close>

theorem payment_content_type_witness:
  "paymentRoute ((bare GET ''/users/42/payment'')\<lparr>headers := [(''If-None-Match'', ''*'')]\<rparr>) started =
     (Respond \<lparr>status = 304, contentType = None, content = []\<rparr>, started)
   \<and> (status \<lparr>status = 304, contentType = None, content = []\<rparr> = 200
        \<and> contentType \<lparr>status = 304, contentType = None, content = []\<rparr> =
            Some ''text/html; charset=utf-8''
      \<or> status \<lparr>status = 304, contentType = None, content = []\<rparr> = 304
        \<and> contentType \<lparr>status = 304, contentType = None, content = []\<rparr> = None
        \<and> content \<lparr>status = 304, contentType = None, content = []\<rparr> = [])"
  using payment_content_type [of
      "(bare GET ''/users/42/payment'')\<lparr>headers := [(''If-None-Match'', ''*'')]\<rparr>" started
      "\<lparr>status = 304, contentType = None, content = []\<rparr>" started]
  by (simp add: eval_defs)

text \<open>The type of the answer to \<^verbatim>\<open>GET /users/42/payment?filter=recent\<close> is not \<^verbatim>\<open>text/plain\<close>.\<close>

theorem payment_content_type_counterexample:
  "fst (paymentRoute ((bare GET ''/users/42/payment'')\<lparr>query := [''filter'' \<mapsto> Str ''recent'']\<rparr>) started) =
     Respond \<lparr>status = 200, contentType = Some ''text/html; charset=utf-8'',
              content = ''User ID: 42, Filter: recent''\<rparr>
   \<and> contentType \<lparr>status = 200, contentType = Some ''text/html; charset=utf-8'',
                   content = ''User ID: 42, Filter: recent''\<rparr> \<noteq> Some ''text/plain''"
  by (simp add: eval_defs)




text \<open>
  Claim C7. The payment endpoint is idempotent and free of side effects: the same request
  handled any number of times over gets the same outcome each time, and the process is
  afterwards in the state it was in before.
\<close>

theorem payment_idempotent:
  "repeated paymentRoute n req sv = (replicate n (fst (paymentRoute req sv)), sv)"
  by (rule repeated_pure) (rule paymentRoute_state, rule paymentRoute_outcome)

theorem payment_idempotent_witness:
  "repeated paymentRoute 3 (bare GET ''/users/42/payment'') started =
     (replicate 3 (Respond \<lparr>status = 200, contentType = Some ''text/html; charset=utf-8'',
                            content = ''User ID: 42, Filter: undefined''\<rparr>), started)"
  using payment_idempotent [of 3 "bare GET ''/users/42/payment''" started]
  by (simp add: eval_defs)

section \<open>The root route\<close>

text \<open>
  Claim C4, as amended. Every GET request for the path \<^verbatim>\<open>/\<close> whose body the JSON body
  parser does not refuse, which the User router passes on as it is, and which has no
  If-None-Match and no If-Modified-Since header gets status 200 and the body
  \<^verbatim>\<open>Hello World\<close> from the application, whatever its other headers; the handler of the
  route reads no parameter, sending that text to such a request whatever its path, query
  and body, and leaves the process as it was.
\<close>

theorem root_hello:
  assumes "express_json req sv = (Next req', sv)"
    and "userRoute req' sv = (Next req', sv')"
    and "method' req = GET" and "path req = ''/''"
    and "unconditional req"
  shows "app userRoute req sv =
           (Sent \<lparr>status = 200, contentType = Some ''text/html; charset=utf-8'',
                  content = ''Hello World''\<rparr>, sv')
         \<and> (method' r = GET \<and> unconditional r \<longrightarrow>
              rootHandler r s =
                (Respond \<lparr>status = 200, contentType = Some ''text/html; charset=utf-8'',
                          content = ''Hello World''\<rparr>, s))"
proof -
  have same: "method' req' = GET" "path req' = ''/''" "unconditional req'"
    using assms by (simp_all add: express_json_passes express_json_headers)
  have "matchPath ''/users/:id/payment'' ''/'' = None"
    by (simp add: matchPath_def pathSegments_def dropSlash_def token_def)
  then have "paymentRoute req' sv' = (Next req', sv')"
    using same(2) by (simp add: paymentRoute_unmatched)
  moreover have "rootRoute req' sv' =
      (Respond \<lparr>status = 200, contentType = Some ''text/html; charset=utf-8'',
                content = ''Hello World''\<rparr>, sv')"
    using same
    by (simp add: rootRoute_def get_def matchPath_root rootHandler_def send_params send_plain)
  ultimately show ?thesis
    using assms(1,2) by (simp add: app_def rootHandler_def send_plain)
qed

text \<open>The third example of the specification, \<^verbatim>\<open>GET /\<close>, here with two headers.\<close>

theorem root_hello_witness:
  "app noRoutes
     ((bare GET ''/'')\<lparr>headers := [(''Accept'', ''application/json''), (''X-Trace'', ''1'')]\<rparr>) started =
     (Sent \<lparr>status = 200, contentType = Some ''text/html; charset=utf-8'',
            content = ''Hello World''\<rparr>, started)"
  using root_hello [of
      "(bare GET ''/'')\<lparr>headers := [(''Accept'', ''application/json''), (''X-Trace'', ''1'')]\<rparr>" started
      "(bare GET ''/'')\<lparr>headers := [(''Accept'', ''application/json''), (''X-Trace'', ''1'')]\<rparr>"
      noRoutes started]
  by (simp add: bare_def noRoutes_def express_json_def unconditional_def fieldValues_def lower_def)

text \<open>
  Two GET requests for \<^verbatim>\<open>/\<close> that do not get 200 and \<^verbatim>\<open>Hello World\<close>: one with a JSON body
  that is malformed, which the body parser of line 4 refuses (400), and one with the
  header \<^verbatim>\<open>If-None-Match: *\<close>, which \<^verbatim>\<open>res.send\<close> finds fresh (304, no body).
\<close>

theorem root_hello_counterexample:
  "app noRoutes
     ((bare GET ''/'')\<lparr>headers := [(''Content-Type'', ''application/json'')], entity := Refused 400\<rparr>)
     started = (Failed 400, started)
   \<and> app noRoutes ((bare GET ''/'')\<lparr>headers := [(''If-None-Match'', ''*'')]\<rparr>) started =
       (Sent \<lparr>status = 304, contentType = None, content = []\<rparr>, started)"
  by (simp add: eval_defs)

section \<open>The application\<close>

text \<open>
  Claim C5, as amended. For every request whose body the JSON body parser does not
  refuse, whose path matches neither \<^verbatim>\<open>/\<close> nor \<^verbatim>\<open>/users/:id/payment\<close>, and which the User
  router passes on as it is (it has no route for it), the application produces the default
  404 response of the framework; no middleware of the application sends a response and no
  error handler runs.
\<close>

theorem unmatched_not_found:
  assumes "express_json req sv = (Next req', sv)"
    and "userRoute req' sv = (Next req', sv')"
    and "matchPath ''/'' (path req) = None"
    and "matchPath ''/users/:id/payment'' (path req) = None"
  shows "app userRoute req sv = (NotFound, sv')"
proof -
  have p: "path req' = path req"
    using assms(1) by (simp add: express_json_passes)
  have "paymentRoute req' sv' = (Next req', sv')"
    using assms(4) p by (simp add: paymentRoute_unmatched)
  moreover have "rootRoute req' sv' = (Next req', sv')"
    using assms(3) p by (simp add: rootRoute_def get_def)
  ultimately show ?thesis
    using assms(1,2) by (simp add: app_def)
qed

text \<open>\<^verbatim>\<open>POST /users/42\<close> with the JSON body \<^verbatim>\<open>{}\<close>.\<close>

theorem unmatched_not_found_witness:
  "app noRoutes ((bare POST ''/users/42'')\<lparr>entity := Parsed (JObject [])\<rparr>) started = (NotFound, started)"
  using unmatched_not_found [of "(bare POST ''/users/42'')\<lparr>entity := Parsed (JObject [])\<rparr>" started
      "(bare POST ''/users/42'')\<lparr>entity := Parsed (JObject []), body := Some (JObject [])\<rparr>"
      noRoutes started]
  by (simp add: bare_def noRoutes_def express_json_def matchPath_def pathSegments_def dropSlash_def
        token_def lower_def)

text \<open>
  A request for a path that no route matches, with a JSON body that is malformed: the
  body parser of line 4 refuses it, and the application answers 400, not 404.
\<close>

theorem unmatched_not_found_counterexample:
  "matchPath ''/'' ''/nowhere'' = None
   \<and> matchPath ''/users/:id/payment'' ''/nowhere'' = None
   \<and> app noRoutes
         ((bare POST ''/nowhere'')
            \<lparr>headers := [(''Content-Type'', ''application/json'')], entity := Refused 400\<rparr>) started =
       (Failed 400, started)"
  by (simp add: eval_defs)

text \<open>
  Claim C10, as amended. The response of the payment endpoint depends only on the path
  parameter and the filter: any two GET requests that match the payment route with path
  parameters of one decoding, that carry the same filter and that have no If-None-Match
  and no If-Modified-Since header get the same answer from the application, whatever
  their other headers, their bodies, their other query parameters and the value the JSON
  body parser stored in \<^verbatim>\<open>req.body\<close>, as long as the body parser refuses neither body and
  the User router passes both requests on as they are.
\<close>

theorem payment_depends_on_id_and_filter:
  assumes "express_json r1 sv1 = (Next r1', sv1)" and "userRoute r1' sv1 = (Next r1', sv1')"
    and "express_json r2 sv2 = (Next r2', sv2)" and "userRoute r2' sv2 = (Next r2', sv2')"
    and "method' r1 = GET" and "method' r2 = GET"
    and "pathname (path r1)" and "pathname (path r2)"
    and "matchPath ''/users/:id/payment'' (path r1) = Some [(''id'', seg1)]"
    and "matchPath ''/users/:id/payment'' (path r2) = Some [(''id'', seg2)]"
    and "decodeURIComponent seg1 = decodeURIComponent seg2"
    and "query r1 ''filter'' = query r2 ''filter''"
    and "unconditional r1" and "unconditional r2"
  shows "fst (app userRoute r1 sv1) = fst (app userRoute r2 sv2)"
proof -
  have same1: "method' r1' = GET" "path r1' = path r1" "query r1' = query r1" "unconditional r1'"
    using assms(1,5,13) by (simp_all add: express_json_passes express_json_headers)
  have same2: "method' r2' = GET" "path r2' = path r2" "query r2' = query r2" "unconditional r2'"
    using assms(3,6,14) by (simp_all add: express_json_passes express_json_headers)
  have app1: "app userRoute r1 sv1 = dispatch [paymentRoute, rootRoute] r1' sv1'"
    using assms(1,2) by (simp add: app_def)
  have app2: "app userRoute r2 sv2 = dispatch [paymentRoute, rootRoute] r2' sv2'"
    using assms(3,4) by (simp add: app_def)
  have filter: "getProp (query r1') ''filter'' = getProp (query r2') ''filter''"
    using assms(12) same1(3) same2(3) by (simp add: getProp_def)
  show ?thesis
  proof (cases "decodeURIComponent seg1")
    case None
    then have "paymentRoute r1' sv1' = (Fail 400, sv1')" "paymentRoute r2' sv2' = (Fail 400, sv2')"
      using assms(9,10,11) same1 same2 by (simp_all add: paymentRoute_undecoded)
    then show ?thesis
      by (simp add: app1 app2)
  next
    case (Some ident)
    then have "paymentRoute r1' sv1' =
        (case toString (getProp (query r1') ''filter'') of
           None \<Rightarrow> (Fail 500, sv1')
         | Some f \<Rightarrow> (send r1' (''User ID: '' @ ident @ '', Filter: '' @ f), sv1'))"
      and "paymentRoute r2' sv2' =
        (case toString (getProp (query r2') ''filter'') of
           None \<Rightarrow> (Fail 500, sv2')
         | Some f \<Rightarrow> (send r2' (''User ID: '' @ ident @ '', Filter: '' @ f), sv2'))"
      using assms(9,10,11) same1 same2 by (simp_all add: paymentRoute_matched)
    then show ?thesis
      using filter same1 same2
      by (simp add: app1 app2 send_plain split: option.splits)
  qed
qed

text \<open>
  Two requests for user 42 with the filter \<^verbatim>\<open>recent\<close>: one bare, one with other letter case
  and a slash at the end of the path, a second query parameter, a header and a JSON body.
\<close>

theorem payment_depends_on_id_and_filter_witness:
  "fst (app noRoutes ((bare GET ''/users/42/payment'')\<lparr>query := [''filter'' \<mapsto> Str ''recent'']\<rparr>) started) =
   fst (app noRoutes
          ((bare GET ''/Users/42/payment/'')
             \<lparr>query := [''filter'' \<mapsto> Str ''recent'', ''page'' \<mapsto> Str ''2''],
              headers := [(''Content-Type'', ''application/json'')],
              entity := Parsed (JObject [(''amount'', JNumber ''1'')])\<rparr>) started)"
  using payment_depends_on_id_and_filter [of
      "(bare GET ''/users/42/payment'')\<lparr>query := [''filter'' \<mapsto> Str ''recent'']\<rparr>" started
      "(bare GET ''/users/42/payment'')\<lparr>query := [''filter'' \<mapsto> Str ''recent'']\<rparr>"
      noRoutes started
      "(bare GET ''/Users/42/payment/'')
             \<lparr>query := [''filter'' \<mapsto> Str ''recent'', ''page'' \<mapsto> Str ''2''],
              headers := [(''Content-Type'', ''application/json'')],
              entity := Parsed (JObject [(''amount'', JNumber ''1'')])\<rparr>" started
      "(bare GET ''/Users/42/payment/'')
             \<lparr>query := [''filter'' \<mapsto> Str ''recent'', ''page'' \<mapsto> Str ''2''],
              headers := [(''Content-Type'', ''application/json'')],
              entity := Parsed (JObject [(''amount'', JNumber ''1'')]),
              body := Some (JObject [(''amount'', JNumber ''1'')])\<rparr>" started
      "''42''" "''42''"]
  by (simp add: bare_def noRoutes_def express_json_def matchPath_def pathSegments_def dropSlash_def
        token_def lower_def pathname_def pathChar_def unconditional_def fieldValues_def)

text \<open>
  The body parser does bear on the response: of two requests for user 42 without a filter,
  the one with a malformed JSON body is answered 400 and never reaches the handler.
\<close>

theorem payment_depends_on_id_and_filter_counterexample:
  "app noRoutes (bare GET ''/users/42/payment'') started =
     (Sent \<lparr>status = 200, contentType = Some ''text/html; charset=utf-8'',
            content = ''User ID: 42, Filter: undefined''\<rparr>, started)
   \<and> app noRoutes
         ((bare GET ''/users/42/payment'')
            \<lparr>headers := [(''Content-Type'', ''application/json'')], entity := Refused 400\<rparr>) started =
       (Failed 400, started)"
  by (simp add: eval_defs)

section \<open>Histories\<close>

text \<open>
  Claim C8. Request handling is deterministic and independent of the history: the outcome
  of the payment route and of the root route for a request is the same in any two runs,
  whatever requests were served before and whatever those did to the state of the process.
  No state is shared between requests.
\<close>

theorem history_independent:
  "fst (paymentRoute req (after f reqs sv)) = fst (paymentRoute req (after f' reqs' sv'))
   \<and> fst (rootRoute req (after f reqs sv)) = fst (rootRoute req (after f' reqs' sv'))"
  using paymentRoute_outcome rootRoute_outcome by blast

text \<open>
  A fresh process and one that has served two requests with a User router that logs: the
  states differ, the outcomes do not.
\<close>

theorem history_independent_witness:
  "after (app loggingUser) [bare GET ''/'', bare POST ''/users''] started \<noteq> started
   \<and> fst (paymentRoute (bare GET ''/users/42/payment'')
            (after (app loggingUser) [bare GET ''/'', bare POST ''/users''] started)) =
       fst (paymentRoute (bare GET ''/users/42/payment'') started)
   \<and> fst (rootRoute (bare GET ''/'')
            (after (app loggingUser) [bare GET ''/'', bare POST ''/users''] started)) =
       fst (rootRoute (bare GET ''/'') started)"
  using history_independent [of "bare GET ''/users/42/payment''" "app loggingUser"
      "[bare GET ''/'', bare POST ''/users'']" started "app loggingUser" "[]" started]
    history_independent [of "bare GET ''/''" "app loggingUser"
      "[bare GET ''/'', bare POST ''/users'']" started "app loggingUser" "[]" started]
  by (simp add: eval_defs)

end
